theory Spec2Isabelle
  imports Main
begin

section \<open>Property annotations and the find-and-replace command of Substance\<close>

text \<open>
  A shallow embedding of \<^verbatim>\<open>src/model/PropertyAnnotation.js\<close> and of
  \<^verbatim>\<open>src/packages/find-and-replace/FindAndReplaceCommand.js\<close>.
  Offsets are JavaScript numbers that hold integer character offsets (the schema says
  \<^verbatim>\<open>startOffset: "number"\<close>); they are modelled as \<open>int\<close>. A path is an array of
  strings, a text is a string. A JavaScript exception is the \<open>Inl\<close> branch of a sum.
\<close>

subsection \<open>Values and errors\<close>

datatype error =
    TypeError          \<comment> \<open>a method is called on \<^verbatim>\<open>undefined\<close>\<close>
  | Error string       \<comment> \<open>\<^verbatim>\<open>throw new Error(msg)\<close>\<close>

text \<open>
  \<^verbatim>\<open>String.prototype.substring(indexStart, indexEnd)\<close> of the language: both
  arguments are clamped to \<open>[0, length]\<close> and swapped when the first is the larger.
\<close>

definition substring :: "'a list \<Rightarrow> int \<Rightarrow> int \<Rightarrow> 'a list" where
  "substring text indexStart indexEnd =
     (let len = int (length text);
          finalStart = min (max indexStart 0) len;
          finalEnd = min (max indexEnd 0) len;
          from = min finalStart finalEnd;
          to = max finalStart finalEnd
      in take (nat (to - from)) (drop (nat from) text))"

text \<open>
  Modelled from the spec: \<^verbatim>\<open>isArrayEqual\<close> (\<^verbatim>\<open>src/util/isArrayEqual\<close> is
  imported by the annotation and is not among the sources). The spec asks for
  "\<^verbatim>\<open>path\<close> equality with \<^verbatim>\<open>sel.path\<close>": two arrays are equal when they
  have the same length and the same element at every index.
\<close>

fun isArrayEqual :: "'a list \<Rightarrow> 'a list \<Rightarrow> bool" where
  "isArrayEqual [] [] = True"
| "isArrayEqual (x # xs) (y # ys) = (x = y \<and> isArrayEqual xs ys)"
| "isArrayEqual _ _ = False"

subsection \<open>The document, the annotation and the selection\<close>

text \<open>
  Modelled from the spec: the document (\<^verbatim>\<open>document.get(path) \<rightarrow> text\<close>). Its class is
  not among the sources; the annotation only reads a text property by its path, and
  \<^verbatim>\<open>get\<close> yields \<^verbatim>\<open>undefined\<close> (\<open>None\<close>) for a path that holds nothing.
\<close>

type_synonym document = "string list \<rightharpoonup> string"

definition doc_get :: "document \<Rightarrow> string list \<Rightarrow> string option" where
  "doc_get doc p = doc p"

text \<open>
  The node: \<^verbatim>\<open>id\<close> comes from the base class \<^verbatim>\<open>DocumentNode\<close>, the three
  properties \<^verbatim>\<open>path\<close>, \<^verbatim>\<open>startOffset\<close>, \<^verbatim>\<open>endOffset\<close> from the schema, and
  \<open>document\<close> is the document the node is attached to, if any.
\<close>

record annotation =
  id' :: string
  path :: "string list"
  startOffset :: int
  endOffset :: int
  document :: "document option"

text \<open>
  Modelled from the spec: \<^verbatim>\<open>DocumentNode.getDocument\<close> (the base class is not among
  the sources; it provides the "attachment state"): the owning document, or nothing for
  a detached node.
\<close>

definition getDocument :: "annotation \<Rightarrow> document option" where
  "getDocument this = document this"

text \<open>
  The selection classes are not among the sources. A selection is taken as what the
  annotation's methods read of it: the results of \<^verbatim>\<open>isNull()\<close> and
  \<^verbatim>\<open>isPropertySelection()\<close>, the coordinates \<^verbatim>\<open>start\<close> and \<^verbatim>\<open>end\<close>
  (each a \<^verbatim>\<open>path\<close> and an \<^verbatim>\<open>offset\<close>), and the properties \<^verbatim>\<open>path\<close>,
  \<^verbatim>\<open>startOffset\<close>, \<^verbatim>\<open>endOffset\<close>.
\<close>

record coordinate =
  c_path :: "string list"
  c_offset :: int

record selection =
  s_isNull :: bool
  s_isPropertySelection :: bool
  s_start :: coordinate
  s_end :: coordinate
  s_path :: "string list"
  s_startOffset :: int
  s_endOffset :: int

subsection \<open>\<^verbatim>\<open>PropertyAnnotation\<close>\<close>

text \<open>
  \<^verbatim>\<open>getText()\<close>. The first component of the result is what the call writes with
  \<^verbatim>\<open>console.warn\<close>, the second is the returned string or the exception.
  \<^verbatim>\<open>text.substring\<close> on an \<^verbatim>\<open>undefined\<close> text is a \<^verbatim>\<open>TypeError\<close>.
\<close>

definition getText :: "annotation \<Rightarrow> string list \<times> (error + string)" where
  "getText this =
     (case getDocument this of
        None \<Rightarrow>
          ([''Trying to use an PropertyAnnotation which is not attached to the document.''],
           Inr '''')
      | Some doc \<Rightarrow>
          (case doc_get doc (path this) of
             None \<Rightarrow> ([], Inl TypeError)
           | Some text \<Rightarrow> ([], Inr (substring text (startOffset this) (endOffset this)))))"

definition canSplit :: "annotation \<Rightarrow> bool" where
  "canSplit this = True"

definition isAnchor :: "annotation \<Rightarrow> bool" where
  "isAnchor this = False"

definition startPath :: "annotation \<Rightarrow> string list" where
  "startPath this = path this"

definition endPath :: "annotation \<Rightarrow> string list" where
  "endPath this = path this"

text \<open>\<^verbatim>\<open>isInsideOf(sel, _strict)\<close>; \<^verbatim>\<open>_strict\<close> is read for its truth value.\<close>

definition isInsideOf :: "annotation \<Rightarrow> selection \<Rightarrow> bool \<Rightarrow> bool" where
  "isInsideOf this sel strict =
     (if s_isNull sel then False
      else if strict then
        (isArrayEqual (path this) (s_path sel) \<and>
         startOffset this > s_startOffset sel \<and>
         endOffset this < s_endOffset sel)
      else
        (isArrayEqual (path this) (s_path sel) \<and>
         startOffset this \<ge> s_startOffset sel \<and>
         endOffset this \<le> s_endOffset sel))"

subsection \<open>The transaction and \<^verbatim>\<open>updateRange\<close>\<close>

datatype val = PathVal "string list" | NumVal int

text \<open>
  Modelled from the spec: the transaction (a "mutation handle exposing
  \<^verbatim>\<open>set(fieldPath, value)\<close>", "the sole sanctioned channel for mutating document
  state, ensuring mutations are batchable/recordable"); its class is not among the
  sources. It holds the nodes of the document by id and the recorded mutations, oldest
  first. \<^verbatim>\<open>set([id, prop], value)\<close> records the mutation and writes the property of
  the node with that id.
\<close>

record transaction =
  nodes :: "string \<rightharpoonup> annotation"
  ops :: "(string list \<times> val) list"

definition setProp :: "annotation \<Rightarrow> string \<Rightarrow> val \<Rightarrow> annotation" where
  "setProp n prop v =
     (case v of
        PathVal p \<Rightarrow> (if prop = ''path'' then n\<lparr>path := p\<rparr> else n)
      | NumVal k \<Rightarrow>
          (if prop = ''startOffset'' then n\<lparr>startOffset := k\<rparr>
           else if prop = ''endOffset'' then n\<lparr>endOffset := k\<rparr>
           else n))"

definition tx_set :: "transaction \<Rightarrow> string list \<Rightarrow> val \<Rightarrow> transaction" where
  "tx_set tx p v =
     (case p of
        [nid, prop] \<Rightarrow>
          (case nodes tx nid of
             Some n \<Rightarrow> tx\<lparr>nodes := (nodes tx)(nid \<mapsto> setProp n prop v), ops := ops tx @ [(p, v)]\<rparr>
           | None \<Rightarrow> tx\<lparr>ops := ops tx @ [(p, v)]\<rparr>)
      | _ \<Rightarrow> tx\<lparr>ops := ops tx @ [(p, v)]\<rparr>)"

text \<open>
  \<^verbatim>\<open>updateRange(tx, sel)\<close> returns the transaction as the call leaves it, and
  \<open>Inl\<close> the exception or \<open>Inr ()\<close>. The receiver is read by value: no
  \<^verbatim>\<open>tx.set\<close> of the method writes a property that the method reads afterwards
  (\<^verbatim>\<open>path\<close> is read before the first, \<^verbatim>\<open>startOffset\<close> before the second, and
  \<^verbatim>\<open>endOffset\<close> is written last), so it does not matter whether the receiver is the
  transaction's own node object.
\<close>

definition updateRange :: "annotation \<Rightarrow> transaction \<Rightarrow> selection \<Rightarrow> transaction \<times> (error + unit)" where
  "updateRange this tx sel =
     (if \<not> s_isPropertySelection sel then
        (tx, Inl (Error ''Cannot change to ContainerAnnotation.''))
      else
        (let tx1 = (if \<not> isArrayEqual (startPath this) (c_path (s_start sel))
                    then tx_set tx [id' this, ''path''] (PathVal (c_path (s_start sel)))
                    else tx);
             tx2 = (if startOffset this \<noteq> c_offset (s_start sel)
                    then tx_set tx1 [id' this, ''startOffset''] (NumVal (c_offset (s_start sel)))
                    else tx1);
             tx3 = (if endOffset this \<noteq> c_offset (s_end sel)
                    then tx_set tx2 [id' this, ''endOffset''] (NumVal (c_offset (s_end sel)))
                    else tx2)
         in (tx3, Inr ())))"

subsection \<open>\<^verbatim>\<open>FindAndReplaceCommand\<close>\<close>

text \<open>
  Modelled from the spec: the editor session and its managers ("an editor session
  exposing \<^verbatim>\<open>getManager(name)\<close>"; the command state is "an opaque mapping produced
  by a manager"). Their classes are not among the sources. A session holds its managers
  by name, \<^verbatim>\<open>getManager\<close> of a name that is not registered is \<^verbatim>\<open>undefined\<close>,
  and a manager answers \<^verbatim>\<open>getCommandState()\<close> with its current state.
\<close>

record 's manager =
  commandState :: 's

record 's editorSession =
  managers :: "string \<rightharpoonup> 's manager"

definition getManager :: "'s editorSession \<Rightarrow> string \<Rightarrow> 's manager option" where
  "getManager editorSession name = managers editorSession name"

definition manager_getCommandState :: "'s manager \<Rightarrow> 's" where
  "manager_getCommandState m = commandState m"

text \<open>
  \<^verbatim>\<open>getCommandState({editorSession})\<close> returns the session as the call leaves it
  and the state, or the \<^verbatim>\<open>TypeError\<close> of calling a method on \<^verbatim>\<open>undefined\<close>.
\<close>

definition getCommandState :: "'s editorSession \<Rightarrow> 's editorSession \<times> (error + 's)" where
  "getCommandState editorSession =
     (case getManager editorSession ''find-and-replace'' of
        None \<Rightarrow> (editorSession, Inl TypeError)
      | Some findAndReplaceManager \<Rightarrow>
          (let findAndReplaceState = manager_getCommandState findAndReplaceManager
           in (editorSession, Inr findAndReplaceState)))"

subsection \<open>The example of the class comment\<close>

definition example_doc :: document where
  "example_doc = [[''p1'', ''content''] \<mapsto> ''Hello, wonderful world!'']"

definition example_anno :: annotation where
  "example_anno =
     \<lparr>id' = ''s1'', path = [''p1'', ''content''], startOffset = 10, endOffset = 19,
      document = Some example_doc\<rparr>"

text \<open>
  Selections for the examples: a property selection over one text property, whose
  \<^verbatim>\<open>path\<close>, \<^verbatim>\<open>startOffset\<close> and \<^verbatim>\<open>endOffset\<close> are those of its two
  coordinates; a null selection; and a selection that is neither (a range over two
  text properties). The path and offsets given to the null selection are never read.
\<close>

definition example_propertySelection :: "string list \<Rightarrow> int \<Rightarrow> int \<Rightarrow> selection" where
  "example_propertySelection p s e =
     \<lparr>s_isNull = False, s_isPropertySelection = True,
      s_start = \<lparr>c_path = p, c_offset = s\<rparr>, s_end = \<lparr>c_path = p, c_offset = e\<rparr>,
      s_path = p, s_startOffset = s, s_endOffset = e\<rparr>"

definition example_nullSelection :: selection where
  "example_nullSelection =
     \<lparr>s_isNull = True, s_isPropertySelection = False,
      s_start = \<lparr>c_path = [], c_offset = 0\<rparr>, s_end = \<lparr>c_path = [], c_offset = 0\<rparr>,
      s_path = [], s_startOffset = 0, s_endOffset = 0\<rparr>"

definition example_containerSelection :: selection where
  "example_containerSelection =
     \<lparr>s_isNull = False, s_isPropertySelection = False,
      s_start = \<lparr>c_path = [''p1'', ''content''], c_offset = 3\<rparr>,
      s_end = \<lparr>c_path = [''p2'', ''content''], c_offset = 4\<rparr>,
      s_path = [''p1'', ''content''], s_startOffset = 3, s_endOffset = 4\<rparr>"

definition example_tx :: transaction where
  "example_tx = \<lparr>nodes = [''s1'' \<mapsto> example_anno], ops = []\<rparr>"

definition example_session :: "nat editorSession" where
  "example_session = \<lparr>managers = [''find-and-replace'' \<mapsto> \<lparr>commandState = 42\<rparr>]\<rparr>"

section \<open>Properties\<close>

lemma isArrayEqual_iff: "isArrayEqual xs ys \<longleftrightarrow> xs = ys"
  by (induction xs ys rule: isArrayEqual.induct) auto

lemma substring_in_range:
  assumes "0 \<le> s" "s \<le> e" "e \<le> int (length text)"
  shows "substring text s e = take (nat (e - s)) (drop (nat s) text)"
  using assms by (simp add: substring_def Let_def min_def max_def)

lemma ops_tx_set: "ops (tx_set tx p v) = ops tx @ [(p, v)]"
  by (simp add: tx_set_def split: list.splits option.splits)

text \<open>
  When the receiver is the transaction's node of its id, a successful
  \<^verbatim>\<open>updateRange\<close> leaves that node with the selection's path and offsets.
\<close>

lemma updateRange_writes_node:
  assumes "s_isPropertySelection sel" and "nodes tx (id' a) = Some a"
  shows "nodes (fst (updateRange a tx sel)) (id' a) =
           Some (a\<lparr>path := c_path (s_start sel), startOffset := c_offset (s_start sel),
                   endOffset := c_offset (s_end sel)\<rparr>)"
  using assms
  by (auto simp: updateRange_def Let_def startPath_def isArrayEqual_iff tx_set_def setProp_def)

subsection \<open>\<^verbatim>\<open>getText\<close>\<close>

text \<open>
  C1: for an annotation attached to a document whose text at \<^verbatim>\<open>path\<close> is
  \<open>text\<close>, with \<open>0 \<le> startOffset \<le> endOffset \<le> length text\<close>, \<^verbatim>\<open>getText()\<close>
  returns (with no warning and no exception) the characters of \<open>text\<close> from
  \<open>startOffset\<close> inclusive to \<open>endOffset\<close> exclusive, a string of length
  \<open>endOffset - startOffset\<close>.
\<close>

theorem getText_substring:
  assumes "getDocument a = Some doc"
    and "doc_get doc (path a) = Some text"
    and "0 \<le> startOffset a"
    and "startOffset a \<le> endOffset a"
    and "endOffset a \<le> int (length text)"
  shows "\<exists>t. getText a = ([], Inr t) \<and>
             t = take (nat (endOffset a - startOffset a)) (drop (nat (startOffset a)) text) \<and>
             int (length t) = endOffset a - startOffset a \<and>
             (\<forall>i. i < length t \<longrightarrow> t ! i = text ! (nat (startOffset a) + i))"
proof -
  let ?t = "take (nat (endOffset a - startOffset a)) (drop (nat (startOffset a)) text)"
  have res: "getText a = ([], Inr ?t)"
    using assms by (simp add: getText_def substring_in_range)
  have len: "int (length ?t) = endOffset a - startOffset a"
    using assms by simp
  have "nat (startOffset a) \<le> length text"
    using assms by linarith
  then have nth: "\<forall>i. i < length ?t \<longrightarrow> ?t ! i = text ! (nat (startOffset a) + i)"
    by (simp add: nth_drop)
  from res len nth show ?thesis by blast
qed

text \<open>
  The annotation of the class comment, \<open>[10, 19)\<close> over \<^verbatim>\<open>"Hello, wonderful world!"\<close>:
  the nine characters from index 10 are \<^verbatim>\<open>"derful wo"\<close> (the word
  \<^verbatim>\<open>"wonderful"\<close> is at \<open>[7, 16)\<close>).
\<close>

theorem getText_substring_witness:
  "getDocument example_anno = Some example_doc \<and>
   doc_get example_doc (path example_anno) = Some ''Hello, wonderful world!'' \<and>
   0 \<le> startOffset example_anno \<and>
   startOffset example_anno \<le> endOffset example_anno \<and>
   endOffset example_anno \<le> int (length ''Hello, wonderful world!'') \<and>
   getText example_anno = ([], Inr ''derful wo'')"
proof -
  have h1: "getDocument example_anno = Some example_doc"
    by (simp add: getDocument_def example_anno_def)
  have h2: "doc_get example_doc (path example_anno) = Some ''Hello, wonderful world!''"
    by (simp add: doc_get_def example_doc_def example_anno_def)
  have h3: "0 \<le> startOffset example_anno"
    and h4: "startOffset example_anno \<le> endOffset example_anno"
    and h5: "endOffset example_anno \<le> int (length ''Hello, wonderful world!'')"
    by (simp_all add: example_anno_def)
  from getText_substring [OF h1 h2 h3 h4 h5]
  have "getText example_anno = ([], Inr ''derful wo'')"
    by (simp add: example_anno_def)
  with h1 h2 h3 h4 h5 show ?thesis by blast
qed

text \<open>
  C6: for an annotation that is not attached to a document, \<^verbatim>\<open>getText()\<close> returns
  the empty string and raises nothing; all it does besides is to log one warning.
\<close>

theorem getText_detached:
  assumes "getDocument a = None"
  shows "getText a =
           ([''Trying to use an PropertyAnnotation which is not attached to the document.''],
            Inr '''')"
  using assms by (simp add: getText_def)

theorem getText_detached_witness:
  "getDocument (example_anno\<lparr>document := None\<rparr>) = None \<and>
   snd (getText (example_anno\<lparr>document := None\<rparr>)) = Inr '''' \<and>
   length (fst (getText (example_anno\<lparr>document := None\<rparr>))) = 1"
proof -
  have h: "getDocument (example_anno\<lparr>document := None\<rparr>) = None"
    by (simp add: getDocument_def)
  from getText_detached [OF h] h show ?thesis by simp
qed

subsection \<open>\<^verbatim>\<open>isInsideOf\<close>\<close>

text \<open>
  C2: for a selection that is not null, \<^verbatim>\<open>isInsideOf(sel, true)\<close> is true exactly
  when the annotation's path equals \<^verbatim>\<open>sel.path\<close> and
  \<open>sel.startOffset < startOffset\<close> and \<open>endOffset < sel.endOffset\<close>; it is false
  as soon as one boundary touches, so also when the two ranges are the same.
\<close>

theorem isInsideOf_strict:
  assumes "\<not> s_isNull sel"
  shows "(isInsideOf a sel True \<longleftrightarrow>
            path a = s_path sel \<and> s_startOffset sel < startOffset a \<and>
            endOffset a < s_endOffset sel) \<and>
         (startOffset a = s_startOffset sel \<or> endOffset a = s_endOffset sel \<longrightarrow>
            \<not> isInsideOf a sel True)"
  using assms by (auto simp: isInsideOf_def isArrayEqual_iff)

theorem isInsideOf_strict_witness:
  "\<not> s_isNull (example_propertySelection [''p1'', ''content''] 10 19) \<and>
   \<not> isInsideOf example_anno (example_propertySelection [''p1'', ''content''] 10 19) True \<and>
   \<not> s_isNull (example_propertySelection [''p1'', ''content''] 5 25) \<and>
   isInsideOf example_anno (example_propertySelection [''p1'', ''content''] 5 25) True"
proof -
  have n1: "\<not> s_isNull (example_propertySelection [''p1'', ''content''] 10 19)"
    and n2: "\<not> s_isNull (example_propertySelection [''p1'', ''content''] 5 25)"
    by (simp_all add: example_propertySelection_def)
  from isInsideOf_strict [OF n1, of example_anno]
  have "\<not> isInsideOf example_anno (example_propertySelection [''p1'', ''content''] 10 19) True"
    by (simp add: example_propertySelection_def example_anno_def)
  moreover from isInsideOf_strict [OF n2, of example_anno]
  have "isInsideOf example_anno (example_propertySelection [''p1'', ''content''] 5 25) True"
    by (simp add: example_propertySelection_def example_anno_def)
  ultimately show ?thesis using n1 n2 by blast
qed

text \<open>
  C3: for a selection that is not null, \<^verbatim>\<open>isInsideOf(sel, false)\<close> is true exactly
  when the annotation's path equals \<^verbatim>\<open>sel.path\<close> and
  \<open>sel.startOffset \<le> startOffset\<close> and \<open>endOffset \<le> sel.endOffset\<close>.
\<close>

theorem isInsideOf_non_strict:
  assumes "\<not> s_isNull sel"
  shows "isInsideOf a sel False \<longleftrightarrow>
           path a = s_path sel \<and> s_startOffset sel \<le> startOffset a \<and>
           endOffset a \<le> s_endOffset sel"
  using assms by (simp add: isInsideOf_def isArrayEqual_iff)

theorem isInsideOf_non_strict_witness:
  "\<not> s_isNull (example_propertySelection [''p1'', ''content''] 10 19) \<and>
   isInsideOf example_anno (example_propertySelection [''p1'', ''content''] 10 19) False \<and>
   \<not> s_isNull (example_propertySelection [''p1'', ''content''] 11 25) \<and>
   \<not> isInsideOf example_anno (example_propertySelection [''p1'', ''content''] 11 25) False"
proof -
  have n1: "\<not> s_isNull (example_propertySelection [''p1'', ''content''] 10 19)"
    and n2: "\<not> s_isNull (example_propertySelection [''p1'', ''content''] 11 25)"
    by (simp_all add: example_propertySelection_def)
  from isInsideOf_non_strict [OF n1, of example_anno]
  have "isInsideOf example_anno (example_propertySelection [''p1'', ''content''] 10 19) False"
    by (simp add: example_propertySelection_def example_anno_def)
  moreover from isInsideOf_non_strict [OF n2, of example_anno]
  have "\<not> isInsideOf example_anno (example_propertySelection [''p1'', ''content''] 11 25) False"
    by (simp add: example_propertySelection_def example_anno_def)
  ultimately show ?thesis using n1 n2 by blast
qed

text \<open>
  C7: for a null selection, \<^verbatim>\<open>isInsideOf\<close> is false whatever the strict flag.
\<close>

theorem isInsideOf_null:
  assumes "s_isNull sel"
  shows "\<not> isInsideOf a sel strict"
  using assms by (simp add: isInsideOf_def)

theorem isInsideOf_null_witness:
  "s_isNull example_nullSelection \<and>
   \<not> isInsideOf example_anno example_nullSelection True \<and>
   \<not> isInsideOf example_anno example_nullSelection False"
proof -
  have h: "s_isNull example_nullSelection"
    by (simp add: example_nullSelection_def)
  from isInsideOf_null [OF h, of example_anno True]
    isInsideOf_null [OF h, of example_anno False] h
  show ?thesis by blast
qed

text \<open>
  C10: strict containment implies containment: when \<^verbatim>\<open>isInsideOf(sel, true)\<close> is
  true, so is \<^verbatim>\<open>isInsideOf(sel, false)\<close>.
\<close>

theorem isInsideOf_strict_imp_non_strict:
  assumes "isInsideOf a sel True"
  shows "isInsideOf a sel False"
  using assms by (auto simp: isInsideOf_def split: if_splits)

theorem isInsideOf_strict_imp_non_strict_witness:
  "isInsideOf example_anno (example_propertySelection [''p1'', ''content''] 5 25) True \<and>
   isInsideOf example_anno (example_propertySelection [''p1'', ''content''] 5 25) False"
proof -
  have h: "isInsideOf example_anno (example_propertySelection [''p1'', ''content''] 5 25) True"
    by (simp add: isInsideOf_def example_propertySelection_def example_anno_def)
  from isInsideOf_strict_imp_non_strict [OF h] h show ?thesis by blast
qed

subsection \<open>\<^verbatim>\<open>startPath\<close> and \<^verbatim>\<open>endPath\<close>\<close>

text \<open>
  C8: \<^verbatim>\<open>startPath\<close> and \<^verbatim>\<open>endPath\<close> both return the annotation's
  \<^verbatim>\<open>path\<close>, for every annotation: its two ends are in the same text property.
\<close>

theorem startPath_endPath_path:
  "startPath a = path a \<and> endPath a = path a \<and> startPath a = endPath a"
  by (simp add: startPath_def endPath_def)

theorem startPath_endPath_path_witness:
  "startPath example_anno = [''p1'', ''content''] \<and> endPath example_anno = [''p1'', ''content'']"
  using startPath_endPath_path [of example_anno] by (simp add: example_anno_def)

subsection \<open>\<^verbatim>\<open>updateRange\<close>\<close>

text \<open>
  C4: for a property selection, \<^verbatim>\<open>updateRange(tx, sel)\<close> returns normally and
  records one \<^verbatim>\<open>tx.set\<close> for each of \<^verbatim>\<open>path\<close>, \<^verbatim>\<open>startOffset\<close>,
  \<^verbatim>\<open>endOffset\<close> that differs from the selection's (its start coordinate's path and
  offset and its end coordinate's offset, which is what the method compares with), in
  this order, and nothing else. So a selection that differs in \<^verbatim>\<open>endOffset\<close> only
  records exactly one mutation, of \<^verbatim>\<open>endOffset\<close>, and a selection that differs in
  nothing leaves the transaction as it was.
\<close>

theorem updateRange_emits_differing_fields:
  assumes "s_isPropertySelection sel"
  shows "snd (updateRange a tx sel) = Inr () \<and>
         ops (fst (updateRange a tx sel)) =
           ops tx
           @ (if path a = c_path (s_start sel) then []
              else [([id' a, ''path''], PathVal (c_path (s_start sel)))])
           @ (if startOffset a = c_offset (s_start sel) then []
              else [([id' a, ''startOffset''], NumVal (c_offset (s_start sel)))])
           @ (if endOffset a = c_offset (s_end sel) then []
              else [([id' a, ''endOffset''], NumVal (c_offset (s_end sel)))]) \<and>
         (path a = c_path (s_start sel) \<and> startOffset a = c_offset (s_start sel) \<and>
          endOffset a \<noteq> c_offset (s_end sel) \<longrightarrow>
            ops (fst (updateRange a tx sel)) =
              ops tx @ [([id' a, ''endOffset''], NumVal (c_offset (s_end sel)))]) \<and>
         (path a = c_path (s_start sel) \<and> startOffset a = c_offset (s_start sel) \<and>
          endOffset a = c_offset (s_end sel) \<longrightarrow>
            fst (updateRange a tx sel) = tx)"
  using assms
  by (simp add: updateRange_def Let_def startPath_def isArrayEqual_iff ops_tx_set)

theorem updateRange_emits_differing_fields_witness:
  "s_isPropertySelection (example_propertySelection [''p1'', ''content''] 10 21) \<and>
   updateRange example_anno example_tx (example_propertySelection [''p1'', ''content''] 10 21) =
     (\<lparr>nodes = [''s1'' \<mapsto> example_anno\<lparr>endOffset := 21\<rparr>],
       ops = [([''s1'', ''endOffset''], NumVal 21)]\<rparr>, Inr ()) \<and>
   s_isPropertySelection (example_propertySelection [''p1'', ''content''] 10 19) \<and>
   updateRange example_anno example_tx (example_propertySelection [''p1'', ''content''] 10 19) =
     (example_tx, Inr ())"
proof -
  let ?s1 = "example_propertySelection [''p1'', ''content''] 10 21"
  let ?s2 = "example_propertySelection [''p1'', ''content''] 10 19"
  have p1: "s_isPropertySelection ?s1" and p2: "s_isPropertySelection ?s2"
    by (simp_all add: example_propertySelection_def)
  have r1: "updateRange example_anno example_tx ?s1 =
      (\<lparr>nodes = [''s1'' \<mapsto> example_anno\<lparr>endOffset := 21\<rparr>],
        ops = [([''s1'', ''endOffset''], NumVal 21)]\<rparr>, Inr ())"
    using updateRange_emits_differing_fields [OF p1, of example_anno example_tx]
    by (simp add: updateRange_def Let_def startPath_def tx_set_def setProp_def
        example_propertySelection_def example_anno_def example_tx_def)
  have r2: "updateRange example_anno example_tx ?s2 = (example_tx, Inr ())"
    using updateRange_emits_differing_fields [OF p2, of example_anno example_tx]
    by (simp add: prod_eq_iff example_propertySelection_def example_anno_def)
  from p1 r1 p2 r2 show ?thesis by blast
qed

text \<open>
  C5: for a selection that is not a property selection, \<^verbatim>\<open>updateRange(tx, sel)\<close>
  throws and calls \<^verbatim>\<open>tx.set\<close> not once: the transaction is as it was, no mutation
  is recorded and every node, the annotation among them, keeps its properties.
\<close>

theorem updateRange_rejects_other_selections:
  assumes "\<not> s_isPropertySelection sel"
  shows "updateRange a tx sel = (tx, Inl (Error ''Cannot change to ContainerAnnotation.'')) \<and>
         ops (fst (updateRange a tx sel)) = ops tx \<and>
         nodes (fst (updateRange a tx sel)) = nodes tx"
  using assms by (simp add: updateRange_def)

theorem updateRange_rejects_other_selections_witness:
  "\<not> s_isPropertySelection example_containerSelection \<and>
   updateRange example_anno example_tx example_containerSelection =
     (example_tx, Inl (Error ''Cannot change to ContainerAnnotation.'')) \<and>
   nodes (fst (updateRange example_anno example_tx example_containerSelection)) ''s1'' =
     Some example_anno"
proof -
  have h: "\<not> s_isPropertySelection example_containerSelection"
    by (simp add: example_containerSelection_def)
  from updateRange_rejects_other_selections [OF h, of example_anno example_tx] h
  show ?thesis by (simp add: example_tx_def)
qed

subsection \<open>\<^verbatim>\<open>FindAndReplaceCommand.getCommandState\<close>\<close>

text \<open>
  C9: for a session with a manager registered as \<^verbatim>\<open>'find-and-replace'\<close>,
  \<^verbatim>\<open>getCommandState({editorSession})\<close> returns the state that this manager gives,
  as it is, and leaves the session as it was.
\<close>

theorem getCommandState_delegates:
  assumes "getManager editorSession ''find-and-replace'' = Some m"
  shows "getCommandState editorSession = (editorSession, Inr (manager_getCommandState m))"
  using assms by (simp add: getCommandState_def)

theorem getCommandState_delegates_witness:
  "getManager example_session ''find-and-replace'' = Some \<lparr>commandState = 42\<rparr> \<and>
   getCommandState example_session = (example_session, Inr 42)"
proof -
  have h: "getManager example_session ''find-and-replace'' = Some \<lparr>commandState = 42\<rparr>"
    by (simp add: getManager_def example_session_def)
  from getCommandState_delegates [OF h] h
  show ?thesis by (simp add: manager_getCommandState_def)
qed

end
